theory Spec2Isabelle
  imports Main "HOL-Library.Sublist"
begin

section \<open>JavaScript runtime helpers\<close>

text \<open>
  Strings are \<open>char list\<close>. The template literals, \<open>startsWith\<close>, \<open>split(".")[0]\<close>,
  \<open>join(", ")\<close>, \<open>replace(/\\s+/g, r)\<close> and \<open>toLowerCase\<close> of the runtime are written
  out here. The whitespace class and the case mapping cover ASCII. Numbers are
  integers (\<open>int\<close> for coordinates, \<open>nat\<close> for lengths and clock readings).
\<close>

definition startsWith :: "string \<Rightarrow> string \<Rightarrow> bool" where
  "startsWith s p = (take (length p) s = p)"

definition is_space :: "char \<Rightarrow> bool" where
  "is_space c = (c \<in> set [CHR '' '', CHR 0x09, CHR 0x0A, CHR 0x0B, CHR 0x0C, CHR 0x0D])"

function replace_ws :: "string \<Rightarrow> string \<Rightarrow> string" where
  "replace_ws r [] = []"
| "replace_ws r (c # cs) =
     (if is_space c then r @ replace_ws r (dropWhile is_space cs)
      else c # replace_ws r cs)"
  by pat_completeness auto
termination
  by (relation "measure (\<lambda>(r, s). length s)")
     (auto simp: less_Suc_eq_le length_dropWhile_le)

definition lower_char :: "char \<Rightarrow> char" where
  "lower_char c =
     (let n = (of_char c :: nat) in
      if 65 \<le> n \<and> n \<le> 90 then char_of (n + 32) else c)"

definition toLowerCase :: "string \<Rightarrow> string" where
  "toLowerCase s = map lower_char s"

definition digit_char :: "nat \<Rightarrow> char" where
  "digit_char d = ''0123456789'' ! d"

function dec :: "nat \<Rightarrow> string" where
  "dec n = (if n < 10 then [digit_char n] else dec (n div 10) @ [digit_char (n mod 10)])"
  by pat_completeness auto
termination
  by (relation "measure id") auto

declare dec.simps [simp del]

fun join_with :: "string \<Rightarrow> string list \<Rightarrow> string" where
  "join_with sep [] = []"
| "join_with sep [s] = s"
| "join_with sep (s # t # ss) = s @ sep @ join_with sep (t # ss)"

definition split_dot_first :: "string \<Rightarrow> string" where
  "split_dot_first s = takeWhile (\<lambda>c. c \<noteq> CHR ''.'') s"

text \<open>
  The clock of the runtime is an input of the model: the \<open>n\<close>-th reading yields the
  milliseconds that \<open>Date.now()\<close> returns and the text that
  \<open>new Date().toISOString()\<close> returns. Every call consumes one reading.
\<close>

record clk =
  clk_fun :: "nat \<Rightarrow> nat \<times> string"
  clk_pos :: nat

definition Date_now :: "clk \<Rightarrow> nat \<times> clk" where
  "Date_now c = (fst (clk_fun c (clk_pos c)), c\<lparr>clk_pos := Suc (clk_pos c)\<rparr>)"

definition Date_toISOString :: "clk \<Rightarrow> string \<times> clk" where
  "Date_toISOString c = (snd (clk_fun c (clk_pos c)), c\<lparr>clk_pos := Suc (clk_pos c)\<rparr>)"

section \<open>Patch data model (patch.ts)\<close>

datatype side = Top | Bottom | Left | Right

datatype pin_kind = Power | Ground | Signal | Clock | Reset | Data

record PatchInterfacePin =
  pin_id :: string
  pin_name :: string
  pin_position :: side
  internalNetName :: string
  pin_type :: pin_kind

datatype scalar = SStr string | SNum int

record Position =
  pos_x :: int
  pos_y :: int

record PatchComponent =
  comp_id :: string
  comp_name :: string
  comp_type :: string
  properties :: "(string \<times> scalar) list"
  position :: Position

record Endpoint =
  componentId :: string
  pinName :: string

record PatchNet =
  net_id :: string
  net_name :: "string option"
  connections :: "Endpoint list"

record PatchMetadata =
  md_name :: string
  description :: "string option"
  version :: string
  createdAt :: string
  modifiedAt :: string
  author :: "string option"
  tags :: "string list option"

record PatchData =
  schemaVersion :: string
  metadata :: PatchMetadata
  components :: "PatchComponent list"
  nets :: "PatchNet list"
  interfacePins :: "PatchInterfacePin list"
  symbolSvg :: "string option"

datatype error_type = UnconnectedPin | FloatingNet | MissingInterfacePin | InvalidConnection

datatype severity_level = Error | Warning

record PatchValidationError =
  err_type :: error_type
  severity :: severity_level
  message :: string
  err_componentId :: "string option"
  err_netId :: "string option"
  err_pinId :: "string option"

record PatchLibraryEntry =
  entry_id :: string
  entry_name :: string
  filePath :: string
  entry_metadata :: PatchMetadata
  previewSvg :: "string option"
  lastUsed :: "string option"

subsection \<open>validatePatch\<close>

text \<open>
  \<open>Object.entries(component.properties)\<close> enumerates the association list of the
  properties in order. The two loops push onto one array, the pin errors of all
  components first, the floating-net warnings after them.
\<close>

definition pin_isConnected :: "PatchData \<Rightarrow> PatchComponent \<Rightarrow> string \<Rightarrow> bool" where
  "pin_isConnected patch component pin =
     list_ex (\<lambda>net. list_ex (\<lambda>conn. componentId conn = comp_id component \<and> pinName conn = pin)
                             (connections net))
             (nets patch)"

definition unconnected_pin_error :: "PatchComponent \<Rightarrow> string \<Rightarrow> PatchValidationError" where
  "unconnected_pin_error component pin =
     \<lparr> err_type = UnconnectedPin, severity = Error,
       message = comp_name component @ '' pin '' @ pin @ '' is unconnected'',
       err_componentId = Some (comp_id component), err_netId = None, err_pinId = Some pin \<rparr>"

definition component_pin_errors :: "PatchData \<Rightarrow> PatchComponent \<Rightarrow> PatchValidationError list" where
  "component_pin_errors patch component =
     concat (map (\<lambda>(pin, v).
                    if startsWith pin ''pin_'' then
                      (if \<not> pin_isConnected patch component pin
                       then [unconnected_pin_error component pin] else [])
                    else [])
                 (properties component))"

definition net_label :: "PatchNet \<Rightarrow> string" where
  "net_label net = (case net_name net of
                      None \<Rightarrow> net_id net
                    | Some n \<Rightarrow> if n = [] then net_id net else n)"

definition floating_net_error :: "PatchNet \<Rightarrow> PatchValidationError" where
  "floating_net_error net =
     \<lparr> err_type = FloatingNet, severity = Warning,
       message = ''Net '' @ [CHR 0x22] @ net_label net @ [CHR 0x22] @ '' has only ''
                   @ dec (length (connections net)) @ '' connection(s)'',
       err_componentId = None, err_netId = Some (net_id net), err_pinId = None \<rparr>"

definition validatePatch :: "PatchData \<Rightarrow> PatchValidationError list" where
  "validatePatch patch =
     concat (map (component_pin_errors patch) (components patch))
     @ map floating_net_error (filter (\<lambda>net. length (connections net) < 2) (nets patch))"

definition createEmptyPatch :: "clk \<Rightarrow> string \<Rightarrow> PatchData \<times> clk" where
  "createEmptyPatch c name =
     (let (now, c1) = Date_toISOString c in
      (\<lparr> schemaVersion = ''1.0'',
         metadata = \<lparr> md_name = name, description = None, version = ''1.0.0'',
                      createdAt = now, modifiedAt = now, author = None, tags = None \<rparr>,
         components = [], nets = [], interfacePins = [], symbolSvg = None \<rparr>, c1))"

section \<open>Wire form (patch.ts: patchToCircuitJson, circuitJsonToPatch)\<close>

text \<open>
  The wire form is \<open>Record<string, any>\<close>: a JavaScript value. Objects are association
  lists in key order; a field whose value is \<open>undefined\<close> is an absent key (as
  \<open>JSON.stringify\<close> and deep equality treat it). \<open>obj_put\<close> is property assignment:
  an existing key keeps its place and takes the new value, a new key is appended, which
  is also what the spread \<open>...comp.properties\<close> does key by key.
\<close>

datatype jval =
    JNull
  | JBool bool
  | JNum int
  | JStr string
  | JArr "jval list"
  | JObj "(string \<times> jval) list"

fun obj_put :: "(string \<times> jval) list \<Rightarrow> string \<Rightarrow> jval \<Rightarrow> (string \<times> jval) list" where
  "obj_put [] k v = [(k, v)]"
| "obj_put ((k', v') # kvs) k v =
     (if k' = k then (k, v) # kvs else (k', v') # obj_put kvs k v)"

definition obj_of :: "(string \<times> jval option) list \<Rightarrow> jval" where
  "obj_of fs =
     JObj (fold (\<lambda>(k, v) acc. case v of None \<Rightarrow> acc | Some x \<Rightarrow> obj_put acc k x) fs [])"

fun jget :: "jval \<Rightarrow> string \<Rightarrow> jval option" where
  "jget (JObj kvs) k = map_of kvs k"
| "jget _ k = None"

fun truthy :: "jval \<Rightarrow> bool" where
  "truthy JNull = False"
| "truthy (JBool b) = b"
| "truthy (JNum n) = (n \<noteq> 0)"
| "truthy (JStr s) = (s \<noteq> [])"
| "truthy (JArr xs) = True"
| "truthy (JObj kvs) = True"

text \<open>\<open>v || d\<close> for a possibly absent \<open>v\<close>.\<close>

definition or_default :: "jval option \<Rightarrow> jval \<Rightarrow> jval" where
  "or_default v d = (case v of None \<Rightarrow> d | Some x \<Rightarrow> if truthy x then x else d)"

subsection \<open>The objects of the typed values\<close>

fun scalar_json :: "scalar \<Rightarrow> jval" where
  "scalar_json (SStr s) = JStr s"
| "scalar_json (SNum n) = JNum n"

fun side_json :: "side \<Rightarrow> jval" where
  "side_json Top = JStr ''top''"
| "side_json Bottom = JStr ''bottom''"
| "side_json Left = JStr ''left''"
| "side_json Right = JStr ''right''"

fun pin_kind_json :: "pin_kind \<Rightarrow> jval" where
  "pin_kind_json Power = JStr ''power''"
| "pin_kind_json Ground = JStr ''ground''"
| "pin_kind_json Signal = JStr ''signal''"
| "pin_kind_json Clock = JStr ''clock''"
| "pin_kind_json Reset = JStr ''reset''"
| "pin_kind_json Data = JStr ''data''"

definition pin_json :: "PatchInterfacePin \<Rightarrow> jval" where
  "pin_json p =
     obj_of [(''id'', Some (JStr (pin_id p))), (''name'', Some (JStr (pin_name p))),
             (''position'', Some (side_json (pin_position p))),
             (''internalNetName'', Some (JStr (internalNetName p))),
             (''type'', Some (pin_kind_json (pin_type p)))]"

definition position_json :: "Position \<Rightarrow> jval" where
  "position_json p = obj_of [(''x'', Some (JNum (pos_x p))), (''y'', Some (JNum (pos_y p)))]"

definition component_json :: "PatchComponent \<Rightarrow> jval" where
  "component_json c =
     obj_of [(''id'', Some (JStr (comp_id c))), (''name'', Some (JStr (comp_name c))),
             (''type'', Some (JStr (comp_type c))),
             (''properties'', Some (JObj (map (\<lambda>(k, v). (k, scalar_json v)) (properties c)))),
             (''position'', Some (position_json (position c)))]"

definition endpoint_json :: "Endpoint \<Rightarrow> jval" where
  "endpoint_json e =
     obj_of [(''componentId'', Some (JStr (componentId e))), (''pinName'', Some (JStr (pinName e)))]"

definition net_json :: "PatchNet \<Rightarrow> jval" where
  "net_json n =
     obj_of [(''id'', Some (JStr (net_id n))), (''name'', map_option JStr (net_name n)),
             (''connections'', Some (JArr (map endpoint_json (connections n))))]"

definition metadata_json :: "PatchMetadata \<Rightarrow> jval" where
  "metadata_json m =
     obj_of [(''name'', Some (JStr (md_name m))),
             (''description'', map_option JStr (description m)),
             (''version'', Some (JStr (version m))),
             (''createdAt'', Some (JStr (createdAt m))),
             (''modifiedAt'', Some (JStr (modifiedAt m))),
             (''author'', map_option JStr (author m)),
             (''tags'', map_option (\<lambda>ts. JArr (map JStr ts)) (tags m))]"

definition patch_json :: "PatchData \<Rightarrow> jval" where
  "patch_json p =
     obj_of [(''schemaVersion'', Some (JStr (schemaVersion p))),
             (''metadata'', Some (metadata_json (metadata p))),
             (''components'', Some (JArr (map component_json (components p)))),
             (''nets'', Some (JArr (map net_json (nets p)))),
             (''interfacePins'', Some (JArr (map pin_json (interfacePins p)))),
             (''symbolSvg'', map_option JStr (symbolSvg p))]"

subsection \<open>The two conversions\<close>

definition patchToCircuitJson :: "PatchData \<Rightarrow> jval" where
  "patchToCircuitJson patch =
     obj_of
       [(''schemaVersion'', Some (JStr ''1.0'')),
        (''metadata'', Some (metadata_json (metadata patch))),
        (''components'',
           Some (JArr (map (\<lambda>comp.
                   JObj (fold (\<lambda>(k, v) acc. obj_put acc k (scalar_json v)) (properties comp)
                              [(''name'', JStr (comp_name comp)),
                               (''type'', JStr (comp_type comp))]))
                 (components patch)))),
        (''nets'',
           Some (JArr (map (\<lambda>net.
                   obj_of [(''name'', map_option JStr (net_name net)),
                           (''connections'', Some (JArr (map endpoint_json (connections net))))])
                 (nets patch)))),
        (''interfacePins'', Some (JArr (map pin_json (interfacePins patch)))),
        (''symbolSvg'', map_option JStr (symbolSvg patch))]"

datatype js_error =
    TypeError
  | SyntaxError
  | ThrownError string

text \<open>
  Reading a property of \<open>null\<close> throws; of any other value that is not an object it is
  \<open>undefined\<close>. The default metadata reads the clock twice, and only when the
  metadata of the input is falsy.
\<close>

definition circuitJsonToPatch :: "clk \<Rightarrow> jval \<Rightarrow> js_error + (jval \<times> clk)" where
  "circuitJsonToPatch c json =
     (if json = JNull then Inl TypeError
      else
        let (md, c2) =
              (case jget json ''metadata'' of
                 Some m \<Rightarrow>
                   if truthy m then (m, c)
                   else (let (t1, c1) = Date_toISOString c; (t2, c2) = Date_toISOString c1 in
                         (obj_of [(''name'', Some (JStr ''Unnamed Patch'')),
                                  (''version'', Some (JStr ''1.0.0'')),
                                  (''createdAt'', Some (JStr t1)),
                                  (''modifiedAt'', Some (JStr t2))], c2))
               | None \<Rightarrow>
                   (let (t1, c1) = Date_toISOString c; (t2, c2) = Date_toISOString c1 in
                    (obj_of [(''name'', Some (JStr ''Unnamed Patch'')),
                             (''version'', Some (JStr ''1.0.0'')),
                             (''createdAt'', Some (JStr t1)),
                             (''modifiedAt'', Some (JStr t2))], c2)))
        in Inr (obj_of
                  [(''schemaVersion'', Some (or_default (jget json ''schemaVersion'') (JStr ''1.0''))),
                   (''metadata'', Some md),
                   (''components'', Some (or_default (jget json ''components'') (JArr []))),
                   (''nets'', Some (or_default (jget json ''nets'') (JArr []))),
                   (''interfacePins'', Some (or_default (jget json ''interfacePins'') (JArr []))),
                   (''symbolSvg'', jget json ''symbolSvg'')], c2))"

subsection \<open>Reading an object at the declared types\<close>

text \<open>
  The interfaces \<open>PatchData\<close>, \<open>PatchComponent\<close>, \<open>PatchNet\<close>, \<open>PatchMetadata\<close> and
  \<open>PatchInterfacePin\<close> say which fields an object must have to be used at that type.
  The readers below return \<open>None\<close> for an object that lacks a required field or holds a
  value of another type there; further keys are ignored.
\<close>

fun as_str :: "jval \<Rightarrow> string option" where
  "as_str (JStr s) = Some s"
| "as_str _ = None"

fun as_int :: "jval \<Rightarrow> int option" where
  "as_int (JNum n) = Some n"
| "as_int _ = None"

fun as_scalar :: "jval \<Rightarrow> scalar option" where
  "as_scalar (JStr s) = Some (SStr s)"
| "as_scalar (JNum n) = Some (SNum n)"
| "as_scalar _ = None"

fun as_list :: "(jval \<Rightarrow> 'a option) \<Rightarrow> jval \<Rightarrow> 'a list option" where
  "as_list f (JArr xs) = those (map f xs)"
| "as_list f _ = None"

definition req :: "jval \<Rightarrow> string \<Rightarrow> (jval \<Rightarrow> 'a option) \<Rightarrow> 'a option" where
  "req j k f = Option.bind (jget j k) f"

definition opt :: "jval \<Rightarrow> string \<Rightarrow> (jval \<Rightarrow> 'a option) \<Rightarrow> 'a option option" where
  "opt j k f = (case jget j k of None \<Rightarrow> Some None | Some v \<Rightarrow> map_option Some (f v))"

definition as_side :: "jval \<Rightarrow> side option" where
  "as_side j =
     (if j = JStr ''top'' then Some Top else if j = JStr ''bottom'' then Some Bottom
      else if j = JStr ''left'' then Some Left else if j = JStr ''right'' then Some Right
      else None)"

definition as_pin_kind :: "jval \<Rightarrow> pin_kind option" where
  "as_pin_kind j =
     (if j = JStr ''power'' then Some Power else if j = JStr ''ground'' then Some Ground
      else if j = JStr ''signal'' then Some Signal else if j = JStr ''clock'' then Some Clock
      else if j = JStr ''reset'' then Some Reset else if j = JStr ''data'' then Some Data
      else None)"

definition as_pin :: "jval \<Rightarrow> PatchInterfacePin option" where
  "as_pin j =
     Option.bind (req j ''id'' as_str) (\<lambda>i.
     Option.bind (req j ''name'' as_str) (\<lambda>n.
     Option.bind (req j ''position'' as_side) (\<lambda>s.
     Option.bind (req j ''internalNetName'' as_str) (\<lambda>inn.
     Option.bind (req j ''type'' as_pin_kind) (\<lambda>t.
       Some \<lparr> pin_id = i, pin_name = n, pin_position = s, internalNetName = inn,
              pin_type = t \<rparr>)))))"

definition as_position :: "jval \<Rightarrow> Position option" where
  "as_position j =
     Option.bind (req j ''x'' as_int) (\<lambda>px.
     Option.bind (req j ''y'' as_int) (\<lambda>py. Some \<lparr> pos_x = px, pos_y = py \<rparr>))"

fun as_properties :: "jval \<Rightarrow> (string \<times> scalar) list option" where
  "as_properties (JObj kvs) = those (map (\<lambda>(k, v). map_option (Pair k) (as_scalar v)) kvs)"
| "as_properties _ = None"

definition as_component :: "jval \<Rightarrow> PatchComponent option" where
  "as_component j =
     Option.bind (req j ''id'' as_str) (\<lambda>i.
     Option.bind (req j ''name'' as_str) (\<lambda>n.
     Option.bind (req j ''type'' as_str) (\<lambda>t.
     Option.bind (req j ''properties'' as_properties) (\<lambda>ps.
     Option.bind (req j ''position'' as_position) (\<lambda>pos.
       Some \<lparr> comp_id = i, comp_name = n, comp_type = t, properties = ps,
              position = pos \<rparr>)))))"

definition as_endpoint :: "jval \<Rightarrow> Endpoint option" where
  "as_endpoint j =
     Option.bind (req j ''componentId'' as_str) (\<lambda>ci.
     Option.bind (req j ''pinName'' as_str) (\<lambda>pn. Some \<lparr> componentId = ci, pinName = pn \<rparr>))"

definition as_net :: "jval \<Rightarrow> PatchNet option" where
  "as_net j =
     Option.bind (req j ''id'' as_str) (\<lambda>i.
     Option.bind (opt j ''name'' as_str) (\<lambda>n.
     Option.bind (req j ''connections'' (as_list as_endpoint)) (\<lambda>cs.
       Some \<lparr> net_id = i, net_name = n, connections = cs \<rparr>)))"

definition as_metadata :: "jval \<Rightarrow> PatchMetadata option" where
  "as_metadata j =
     Option.bind (req j ''name'' as_str) (\<lambda>n.
     Option.bind (opt j ''description'' as_str) (\<lambda>d.
     Option.bind (req j ''version'' as_str) (\<lambda>v.
     Option.bind (req j ''createdAt'' as_str) (\<lambda>ca.
     Option.bind (req j ''modifiedAt'' as_str) (\<lambda>ma.
     Option.bind (opt j ''author'' as_str) (\<lambda>a.
     Option.bind (opt j ''tags'' (as_list as_str)) (\<lambda>ts.
       Some \<lparr> md_name = n, description = d, version = v, createdAt = ca, modifiedAt = ma,
              author = a, tags = ts \<rparr>)))))))"

definition as_PatchData :: "jval \<Rightarrow> PatchData option" where
  "as_PatchData j =
     Option.bind (req j ''schemaVersion'' as_str) (\<lambda>sv.
     Option.bind (req j ''metadata'' as_metadata) (\<lambda>md.
     Option.bind (req j ''components'' (as_list as_component)) (\<lambda>cs.
     Option.bind (req j ''nets'' (as_list as_net)) (\<lambda>ns.
     Option.bind (req j ''interfacePins'' (as_list as_pin)) (\<lambda>ps.
     Option.bind (opt j ''symbolSvg'' as_str) (\<lambda>svg.
       Some \<lparr> schemaVersion = sv, metadata = md, components = cs, nets = ns,
              interfacePins = ps, symbolSvg = svg \<rparr>))))))"

section \<open>Connectivity engine (elk-service.ts)\<close>

text \<open>
  A \<open>Map\<close> keeps its keys in insertion order: an association list with distinct keys,
  where \<open>set\<close> replaces the value of a present key in place and appends a new one.
\<close>

fun Map_set :: "('k \<times> 'v) list \<Rightarrow> 'k \<Rightarrow> 'v \<Rightarrow> ('k \<times> 'v) list" where
  "Map_set [] k v = [(k, v)]"
| "Map_set ((k', v') # kvs) k v =
     (if k' = k then (k, v) # kvs else (k', v') # Map_set kvs k v)"

definition Map_get :: "('k \<times> 'v) list \<Rightarrow> 'k \<Rightarrow> 'v option" where
  "Map_get m k = map_of m k"

definition Map_delete :: "('k \<times> 'v) list \<Rightarrow> 'k \<Rightarrow> ('k \<times> 'v) list" where
  "Map_delete m k = filter (\<lambda>(k', v). k' \<noteq> k) m"

definition Map_values :: "('k \<times> 'v) list \<Rightarrow> 'v list" where
  "Map_values m = map snd m"

record GraphNode =
  node_id :: string
  node_componentId :: string
  node_pinName :: string
  node_label :: string

record GraphEdge =
  edge_id :: string
  edge_source :: string
  edge_target :: string
  edge_netId :: string

record Graph =
  nodes :: "GraphNode list"
  edges :: "GraphEdge list"
  adjacencyList :: "(string \<times> string list) list"

record UnconnectedPinEntry =
  up_componentId :: string
  up_componentName :: string
  up_pinName :: string

record FloatingNetEntry =
  fn_netId :: string
  fn_netName :: "string option"
  fn_connectionCount :: nat

record ConnectivityAnalysis =
  componentCount :: nat
  netCount :: nat
  unconnectedPins :: "UnconnectedPinEntry list"
  floatingNets :: "FloatingNetEntry list"
  subgraphCount :: nat
  isFullyConnected :: bool

definition component_nodes :: "PatchComponent \<Rightarrow> GraphNode list" where
  "component_nodes component =
     concat (map (\<lambda>(key, v).
                    if startsWith key ''pin_'' then
                      [\<lparr> node_id = comp_id component @ ''_'' @ key,
                         node_componentId = comp_id component,
                         node_pinName = key,
                         node_label = comp_name component @ ''.'' @ key \<rparr>]
                    else [])
                 (properties component))"

definition net_edges :: "PatchNet \<Rightarrow> GraphEdge list" where
  "net_edges net =
     map (\<lambda>i. let conn1 = connections net ! i; conn2 = connections net ! (i + 1) in
              \<lparr> edge_id = net_id net @ ''_'' @ dec i,
                edge_source = componentId conn1 @ ''_'' @ pinName conn1,
                edge_target = componentId conn2 @ ''_'' @ pinName conn2,
                edge_netId = net_id net \<rparr>)
         [0 ..< length (connections net) - 1]"

text \<open>\<open>adjacencyList.get(k)?.push(v)\<close>: nothing happens for a key that is not a node.\<close>

definition adj_push :: "(string \<times> string list) list \<Rightarrow> string \<Rightarrow> string \<Rightarrow> (string \<times> string list) list" where
  "adj_push adj k v = (case Map_get adj k of None \<Rightarrow> adj | Some vs \<Rightarrow> Map_set adj k (vs @ [v]))"

definition buildGraph :: "PatchData \<Rightarrow> Graph" where
  "buildGraph patch =
     (let ns = concat (map component_nodes (components patch));
          adj0 = fold (\<lambda>n adj. Map_set adj (node_id n) []) ns [];
          es = concat (map net_edges (nets patch));
          adj1 = fold (\<lambda>e adj. adj_push (adj_push adj (edge_source e) (edge_target e))
                                         (edge_target e) (edge_source e)) es adj0
      in \<lparr> nodes = ns, edges = es, adjacencyList = adj1 \<rparr>)"

text \<open>
  The outer loop runs over the components and the inner loop over the nets; one entry
  is pushed for each pair of a component and a net none of whose endpoints is on that
  component. The graph argument is not read.
\<close>

definition findUnconnectedPins :: "PatchData \<Rightarrow> Graph \<Rightarrow> UnconnectedPinEntry list" where
  "findUnconnectedPins patch graph =
     concat (map (\<lambda>component.
       concat (map (\<lambda>net.
         (let isConnected = list_ex (\<lambda>conn. componentId conn = comp_id component)
                                    (connections net)
          in if \<not> isConnected then
               [\<lparr> up_componentId = comp_id component,
                  up_componentName = comp_name component,
                  up_pinName = ''unspecified'' \<rparr>]
             else []))
         (nets patch)))
       (components patch))"

definition findFloatingNets :: "PatchData \<Rightarrow> FloatingNetEntry list" where
  "findFloatingNets patch =
     map (\<lambda>net. \<lparr> fn_netId = net_id net, fn_netName = net_name net,
                  fn_connectionCount = length (connections net) \<rparr>)
         (filter (\<lambda>net. length (connections net) < 2) (nets patch))"

definition neighbors :: "(string \<times> string list) list \<Rightarrow> string \<Rightarrow> string list" where
  "neighbors adj n = (case Map_get adj n of None \<Rightarrow> [] | Some ns \<Rightarrow> ns)"

text \<open>
  The depth-first search. The call stack of the source is the list \<open>todo\<close>: the
  iterations of the \<open>for\<close> loops that are still to run, innermost first. Visiting a
  node that is not yet in \<open>visited\<close> adds it and puts its neighbours in front.
\<close>

function dfs_loop :: "(string \<times> string list) list \<Rightarrow> string list \<Rightarrow> string set \<Rightarrow> string set" where
  "dfs_loop adj [] visited = visited"
| "dfs_loop adj (n # todo) visited =
     (if n \<in> visited then dfs_loop adj todo visited
      else dfs_loop adj (neighbors adj n @ todo) (insert n visited))"
  by pat_completeness auto

lemma neighbors_sub: "set (neighbors adj n) \<subseteq> \<Union>(set ` snd ` set adj)"
proof (cases "map_of adj n")
  case None
  then show ?thesis by (simp add: neighbors_def Map_get_def)
next
  case (Some ns)
  then have "(n, ns) \<in> set adj" by (rule map_of_SomeD)
  then have "set ns \<subseteq> \<Union>(set ` snd ` set adj)" by force
  with Some show ?thesis by (simp add: neighbors_def Map_get_def)
qed

lemma dfs_measure_skip:
  assumes "finite A"
  shows "card ((set todo \<union> A) - visited) \<le> card ((set (n # todo) \<union> A) - visited)"
  using assms by (intro card_mono) auto

lemma dfs_measure_visit:
  assumes "finite A" "n \<notin> visited" "set ns \<subseteq> A"
  shows "card ((set (ns @ todo) \<union> A) - insert n visited)
         < card ((set (n # todo) \<union> A) - visited)"
proof -
  have "(set (ns @ todo) \<union> A) - insert n visited \<subset> (set (n # todo) \<union> A) - visited"
    using assms by auto
  then show ?thesis using assms by (intro psubset_card_mono) auto
qed

termination dfs_loop
  apply (relation "inv_image (less_than <*lex*> less_than)
         (\<lambda>(adj, todo, visited).
            (card ((set todo \<union> \<Union>(set ` snd ` set adj)) - visited), length todo))")
  subgoal by (intro wf_inv_image wf_lex_prod wf_less_than)
  subgoal for adj n todo visited
    using dfs_measure_skip[of "\<Union>(set ` snd ` set adj)" todo visited n]
    by (auto simp: le_less)
  subgoal for adj n todo visited
    using dfs_measure_visit[of "\<Union>(set ` snd ` set adj)" n visited "neighbors adj n" todo]
          neighbors_sub[of adj n]
    by simp
  done

definition dfs :: "string \<Rightarrow> (string \<times> string list) list \<Rightarrow> string set \<Rightarrow> string set" where
  "dfs nodeId adj visited = dfs_loop adj (neighbors adj nodeId) (insert nodeId visited)"

definition countConnectedSubgraphs :: "Graph \<Rightarrow> nat" where
  "countConnectedSubgraphs graph =
     snd (fold (\<lambda>node (visited, subgraphCount).
                  if node_id node \<notin> visited
                  then (dfs (node_id node) (adjacencyList graph) visited, subgraphCount + 1)
                  else (visited, subgraphCount))
               (nodes graph) ({}, 0))"

definition analyzeConnectivity :: "PatchData \<Rightarrow> ConnectivityAnalysis" where
  "analyzeConnectivity patch =
     (let graph = buildGraph patch;
          unconnected = findUnconnectedPins patch graph;
          floating = findFloatingNets patch;
          subgraphs = countConnectedSubgraphs graph
      in \<lparr> componentCount = length (components patch),
           netCount = length (nets patch),
           unconnectedPins = unconnected,
           floatingNets = floating,
           subgraphCount = subgraphs,
           isFullyConnected = (length unconnected = 0 \<and> length floating = 0) \<rparr>)"

section \<open>Extraction engine (patch-extractor)\<close>

text \<open>
  The diagram types are declared alike by the extractor and by the editor client. A
  component that the insertion routine adds carries the \<open>position\<close> of the patch
  component it was spread from as a further key; \<open>net\<close> is \<open>undefined\<close> for an
  inserted connection whose patch net has no name.
\<close>

record SchematicComponent =
  sc_id :: string
  sc_type :: string
  sc_name :: string
  sc_x :: int
  sc_y :: int
  sc_rotation :: "int option"
  sc_properties :: "(string \<times> jval) list option"
  sc_position :: "Position option"

record SchematicConnection =
  conn_id :: string
  conn_net :: "string option"
  conn_connections :: "string list option"

record SchematicState =
  st_components :: "SchematicComponent list"
  st_connections :: "SchematicConnection list"

record ExtractedComponent =
  xc_id :: string
  xc_type :: string
  xc_name :: string
  xc_x :: int
  xc_y :: int
  xc_rotation :: int
  xc_properties :: "(string \<times> jval) list"

record ExtractedNet =
  xn_id :: string
  xn_name :: "string option"
  xn_connections :: "string list"

record ExtractedPin =
  xp_name :: string
  xp_net :: "string option"

record ExtractedMetadata =
  xm_version :: string
  xm_createdAt :: string
  xm_updatedAt :: string
  xm_description :: string

record ExtractedPatch =
  xpatch_id :: string
  xpatch_name :: string
  xpatch_components :: "ExtractedComponent list"
  xpatch_nets :: "ExtractedNet list"
  xpatch_interfacePins :: "ExtractedPin list"
  xpatch_metadata :: ExtractedMetadata

record extract_state =
  internalNets :: "ExtractedNet list"
  ex_interfacePins :: "ExtractedPin list"
  processedNets :: "string set"

definition connectedEndpoints :: "SchematicConnection \<Rightarrow> string list" where
  "connectedEndpoints conn = (case conn_connections conn of None \<Rightarrow> [] | Some es \<Rightarrow> es)"

definition selectedEndpoints :: "string set \<Rightarrow> SchematicConnection \<Rightarrow> string list" where
  "selectedEndpoints selectedComponentNames conn =
     filter (\<lambda>endpoint. split_dot_first endpoint \<in> selectedComponentNames)
            (connectedEndpoints conn)"

definition externalEndpoints :: "string set \<Rightarrow> SchematicConnection \<Rightarrow> string list" where
  "externalEndpoints selectedComponentNames conn =
     filter (\<lambda>endpoint. split_dot_first endpoint \<notin> selectedComponentNames)
            (connectedEndpoints conn)"

text \<open>One iteration of the loop over the connections.\<close>

definition extract_step :: "string set \<Rightarrow> SchematicConnection \<Rightarrow> extract_state \<Rightarrow> extract_state" where
  "extract_step names conn st =
     (if conn_id conn \<in> processedNets st then st
      else
        let sel = selectedEndpoints names conn;
            ext = externalEndpoints names conn;
            st1 = (if length ext = 0 \<and> length sel > 0
                   then st\<lparr> internalNets := internalNets st @
                            [\<lparr> xn_id = conn_id conn, xn_name = conn_net conn,
                               xn_connections = sel \<rparr>] \<rparr>
                   else st);
            st2 = (if length sel > 0 \<and> length ext > 0
                   then st1\<lparr> ex_interfacePins := ex_interfacePins st1 @
                            map (\<lambda>endpoint. \<lparr> xp_name = endpoint, xp_net = conn_net conn \<rparr>) sel \<rparr>
                   else st1)
        in st2\<lparr> processedNets := insert (conn_id conn) (processedNets st2) \<rparr>)"

datatype extract_error = SelectionEmpty

text \<open>
  The extraction throws its one error when no component of the diagram is selected.
  The warning it logs for a patch without nets and pins changes no value.
\<close>

definition extractPatchFromSchematic ::
  "clk \<Rightarrow> SchematicState \<Rightarrow> string set \<Rightarrow> string \<Rightarrow> extract_error + (ExtractedPatch \<times> clk)" where
  "extractPatchFromSchematic c schematicState selectedIds patchName =
     (let selectedComponents = filter (\<lambda>comp. sc_id comp \<in> selectedIds)
                                      (st_components schematicState);
          selectedComponentNames = set (map sc_name selectedComponents)
      in if length selectedComponents = 0 then Inl SelectionEmpty
         else
           let patchComponents =
                 map (\<lambda>comp. \<lparr> xc_id = sc_id comp, xc_type = sc_type comp,
                                xc_name = sc_name comp, xc_x = sc_x comp, xc_y = sc_y comp,
                                xc_rotation = (case sc_rotation comp of None \<Rightarrow> 0 | Some r \<Rightarrow> r),
                                xc_properties =
                                  (case sc_properties comp of None \<Rightarrow> [] | Some ps \<Rightarrow> ps) \<rparr>)
                     selectedComponents;
               st = fold (extract_step selectedComponentNames)
                         (st_connections schematicState)
                         \<lparr> internalNets = [], ex_interfacePins = [], processedNets = {} \<rparr>;
               (t1, c1) = Date_toISOString c;
               (t2, c2) = Date_toISOString c1
           in Inr (\<lparr> xpatch_id = replace_ws ''-'' (toLowerCase patchName),
                      xpatch_name = patchName,
                      xpatch_components = patchComponents,
                      xpatch_nets = internalNets st,
                      xpatch_interfacePins = ex_interfacePins st,
                      xpatch_metadata =
                        \<lparr> xm_version = ''1.0'', xm_createdAt = t1, xm_updatedAt = t2,
                          xm_description = ''Extracted patch from schematic containing ''
                            @ dec (length selectedComponents) @ '' components'' \<rparr> \<rparr>, c2))"

text \<open>
  For stating what the extraction produces: the names of the selected components, the
  net and the pins that one connection gives rise to, the two conditions of the loop
  body, the endpoints of a patch (those of its nets and those its pins are named
  after), and the selected endpoints of a diagram (the endpoints of its connections
  whose owning component name is selected).
\<close>

definition patch_endpoints :: "ExtractedPatch \<Rightarrow> string set" where
  "patch_endpoints p =
     set (concat (map xn_connections (xpatch_nets p))) \<union> set (map xp_name (xpatch_interfacePins p))"

definition selectedComponentNames :: "SchematicState \<Rightarrow> string set \<Rightarrow> string set" where
  "selectedComponentNames D ids =
     set (map sc_name (filter (\<lambda>c. sc_id c \<in> ids) (st_components D)))"

definition diagram_selected_endpoints :: "SchematicState \<Rightarrow> string set \<Rightarrow> string set" where
  "diagram_selected_endpoints D ids =
     set (concat (map (selectedEndpoints (selectedComponentNames D ids)) (st_connections D)))"

definition internal_net_of :: "string set \<Rightarrow> SchematicConnection \<Rightarrow> ExtractedNet" where
  "internal_net_of names conn =
     \<lparr> xn_id = conn_id conn, xn_name = conn_net conn,
       xn_connections = selectedEndpoints names conn \<rparr>"

definition interface_pins_of :: "string set \<Rightarrow> SchematicConnection \<Rightarrow> ExtractedPin list" where
  "interface_pins_of names conn =
     map (\<lambda>endpoint. \<lparr> xp_name = endpoint, xp_net = conn_net conn \<rparr>) (selectedEndpoints names conn)"

definition is_internal :: "string set \<Rightarrow> SchematicConnection \<Rightarrow> bool" where
  "is_internal names conn \<longleftrightarrow>
     externalEndpoints names conn = [] \<and> selectedEndpoints names conn \<noteq> []"

definition is_boundary :: "string set \<Rightarrow> SchematicConnection \<Rightarrow> bool" where
  "is_boundary names conn \<longleftrightarrow>
     selectedEndpoints names conn \<noteq> [] \<and> externalEndpoints names conn \<noteq> []"

section \<open>Insertion engine (patch-api-client.ts: UseInsertPatch)\<close>

text \<open>
  \<open>onInsertPatch\<close> maps over the components of the patch and reads \<open>Date.now()\<close> once
  for each component, then maps over the nets and reads it once for each net. The new
  components and connections are appended to the diagram by the state updater.
\<close>

definition offset_x :: int where "offset_x = 80"
definition offset_y :: int where "offset_y = 80"

fun insert_components :: "clk \<Rightarrow> PatchComponent list \<Rightarrow> SchematicComponent list \<times> clk" where
  "insert_components c [] = ([], c)"
| "insert_components c (cmpt # comps) =
     (let (t, c1) = Date_now c;
          new = \<lparr> sc_id = comp_id cmpt @ ''-'' @ dec t,
                  sc_type = comp_type cmpt,
                  sc_name = comp_name cmpt,
                  sc_x = (if pos_x (position cmpt) \<noteq> 0
                          then pos_x (position cmpt) + offset_x else offset_x),
                  sc_y = (if pos_y (position cmpt) \<noteq> 0
                          then pos_y (position cmpt) + offset_y else offset_y),
                  sc_rotation = None,
                  sc_properties = Some (map (\<lambda>(k, v). (k, scalar_json v)) (properties cmpt)),
                  sc_position = Some (position cmpt) \<rparr>;
          (rest, c2) = insert_components c1 comps
      in (new # rest, c2))"

definition remap_endpoint :: "SchematicComponent list \<Rightarrow> Endpoint \<Rightarrow> string" where
  "remap_endpoint newComponents conn =
     (let newCompId = map_option sc_id
                        (find (\<lambda>comp. sc_name comp = componentId conn) newComponents)
      in (case newCompId of
            None \<Rightarrow> componentId conn
          | Some i \<Rightarrow> if i \<noteq> [] then i else componentId conn)
         @ ''.'' @ pinName conn)"

fun insert_connections ::
  "clk \<Rightarrow> SchematicComponent list \<Rightarrow> PatchNet list \<Rightarrow> SchematicConnection list \<times> clk" where
  "insert_connections c newComponents [] = ([], c)"
| "insert_connections c newComponents (net # ns) =
     (let (t, c1) = Date_now c;
          new = \<lparr> conn_id = net_id net @ ''-'' @ dec t,
                  conn_net = net_name net,
                  conn_connections = Some (map (remap_endpoint newComponents) (connections net)) \<rparr>;
          (rest, c2) = insert_connections c1 newComponents ns
      in (new # rest, c2))"

definition onInsertPatch :: "clk \<Rightarrow> SchematicState \<Rightarrow> PatchData \<Rightarrow> SchematicState \<times> clk" where
  "onInsertPatch c prev patch =
     (let (newComponents, c1) = insert_components c (components patch);
          (newConnections, c2) = insert_connections c1 newComponents (nets patch)
      in (\<lparr> st_components = st_components prev @ newComponents,
            st_connections = st_connections prev @ newConnections \<rparr>, c2))"

section \<open>Library store (patch-manager)\<close>

text \<open>
  The files are a map from paths to contents. A content is the JSON value that the text
  of the file parses to, or a text that is not JSON. \<open>JSON.stringify\<close> followed by
  \<open>JSON.parse\<close> is the identity on the objects of the model. Writing a file always
  succeeds, and \<open>join\<close> puts a slash between the directory and the name. The index
  keeps the metadata of a patch as it is at the time of the call.
\<close>

datatype file_content = JsonFile jval | OtherFile string

record world =
  fs :: "string \<Rightarrow> file_content option"
  clock :: clk

record PatchStorageConfig =
  patchDir :: string
  libraryDir :: string
  backupDir :: string

record PatchManager =
  config :: PatchStorageConfig
  libraryIndex :: "(string \<times> PatchLibraryEntry) list"

definition join :: "string \<Rightarrow> string \<Rightarrow> string" where
  "join dir name = dir @ ''/'' @ name"

definition entry_json :: "PatchLibraryEntry \<Rightarrow> jval" where
  "entry_json e =
     obj_of [(''id'', Some (JStr (entry_id e))), (''name'', Some (JStr (entry_name e))),
             (''filePath'', Some (JStr (filePath e))),
             (''metadata'', Some (metadata_json (entry_metadata e))),
             (''previewSvg'', map_option JStr (previewSvg e)),
             (''lastUsed'', map_option JStr (lastUsed e))]"

definition indexPath :: "PatchManager \<Rightarrow> string" where
  "indexPath m = join (libraryDir (config m)) ''index.json''"

definition saveLibraryIndex :: "world \<Rightarrow> PatchManager \<Rightarrow> world" where
  "saveLibraryIndex w m =
     (let data = Map_values (libraryIndex m)
      in w\<lparr> fs := (fs w)(indexPath m \<mapsto> JsonFile (JArr (map entry_json data))) \<rparr>)"

text \<open>The identifier under which \<open>updateLibraryIndex\<close> files a patch of a given name.\<close>

definition name_entry_id :: "string \<Rightarrow> string" where
  "name_entry_id name = ''patch_'' @ replace_ws ''_'' name"

definition updateLibraryIndex :: "world \<Rightarrow> PatchManager \<Rightarrow> PatchData \<Rightarrow> string \<Rightarrow> world \<times> PatchManager" where
  "updateLibraryIndex w m patch filepath =
     (let i = name_entry_id (md_name (metadata patch));
          (t, c1) = Date_toISOString (clock w);
          entry = \<lparr> entry_id = i, entry_name = md_name (metadata patch), filePath = filepath,
                    entry_metadata = metadata patch, previewSvg = None, lastUsed = Some t \<rparr>;
          m1 = m\<lparr> libraryIndex := Map_set (libraryIndex m) i entry \<rparr>
      in (saveLibraryIndex (w\<lparr> clock := c1 \<rparr>) m1, m1))"

definition default_filename :: "PatchData \<Rightarrow> string" where
  "default_filename patch =
     replace_ws ''_'' (md_name (metadata patch)) @ ''_v'' @ version (metadata patch)
       @ ''.tscircuit''"

text \<open>\<open>filename || default\<close>: an absent or empty file name gives the default one.\<close>

definition save_name :: "PatchData \<Rightarrow> string option \<Rightarrow> string" where
  "save_name patch filename =
     (case filename of
        None \<Rightarrow> default_filename patch
      | Some f \<Rightarrow> if f \<noteq> [] then f else default_filename patch)"

text \<open>
  \<open>savePatch\<close> returns the thrown error or the path, the files and the clock after the
  call, the manager after the call, and the patch object of the caller after the call
  (the modification time is assigned in place).
\<close>

definition savePatch ::
  "world \<Rightarrow> PatchManager \<Rightarrow> PatchData \<Rightarrow> string option
     \<Rightarrow> (js_error + string) \<times> world \<times> PatchManager \<times> PatchData" where
  "savePatch w m patch filename =
     (let errors = validatePatch patch;
          hasErrors = list_ex (\<lambda>e. severity e = Error) errors
      in if hasErrors then
           (let errorMessages =
                  join_with '', '' (map message (filter (\<lambda>e. severity e = Error) errors))
            in (Inl (ThrownError (''Cannot save patch with errors: '' @ errorMessages)),
                w, m, patch))
         else
           let (now, c1) = Date_toISOString (clock w);
               patch1 = patch\<lparr> metadata := (metadata patch)\<lparr> modifiedAt := now \<rparr> \<rparr>;
               w1 = w\<lparr> clock := c1 \<rparr>;
               name = save_name patch1 filename;
               filepath = join (patchDir (config m)) name;
               w2 = (case fs w1 filepath of
                       None \<Rightarrow> w1
                     | Some content \<Rightarrow>
                         let (t, c2) = Date_now (clock w1);
                             backupName = name @ ''.'' @ dec t @ ''.backup'';
                             backupPath = join (backupDir (config m)) backupName
                         in w1\<lparr> fs := (fs w1)(backupPath \<mapsto> content), clock := c2 \<rparr>);
               w3 = w2\<lparr> fs := (fs w2)(filepath \<mapsto> JsonFile (patch_json patch1)) \<rparr>;
               (w4, m1) = updateLibraryIndex w3 m patch1 filepath
           in (Inr filepath, w4, m1, patch1))"


definition getLibrary :: "PatchManager \<Rightarrow> PatchLibraryEntry list" where
  "getLibrary m = Map_values (libraryIndex m)"

definition getLibraryEntry :: "PatchManager \<Rightarrow> string \<Rightarrow> PatchLibraryEntry option" where
  "getLibraryEntry m patchId = Map_get (libraryIndex m) patchId"




text \<open>
  Two abbreviations for stating what the operations do: the patch of the caller after
  \<open>savePatch\<close> has assigned the modification time, and the milliseconds of the next
  clock reading.
\<close>

definition refreshed :: "world \<Rightarrow> PatchData \<Rightarrow> PatchData" where
  "refreshed w patch =
     patch\<lparr> metadata := (metadata patch)
              \<lparr> modifiedAt := snd (clk_fun (clock w) (clk_pos (clock w))) \<rparr> \<rparr>"


section \<open>Example inputs\<close>

text \<open>
  Patches in the style of the repository's integration tests: the test of saving and
  loading (one resistor, no net), the complete workflow (battery, resistor and LED in
  a ring of three nets), and the scenario of the specification (R1 and D1 joined by
  the net VCC).
\<close>

definition mk_metadata :: "string \<Rightarrow> string \<Rightarrow> PatchMetadata" where
  "mk_metadata name now =
     \<lparr> md_name = name, description = None, version = ''1.0.0'',
       createdAt = now, modifiedAt = now, author = None, tags = None \<rparr>"

definition single_component_patch :: PatchData where
  "single_component_patch =
     \<lparr> schemaVersion = ''1.0'',
       metadata = mk_metadata ''Save Test Patch'' ''2024-01-01T00:00:00.000Z'',
       components =
         [\<lparr> comp_id = ''r1'', comp_name = ''R1'', comp_type = ''resistor'',
            properties = [(''resistance'', SStr ''10k'')],
            position = \<lparr> pos_x = 0, pos_y = 0 \<rparr> \<rparr>],
       nets = [], interfacePins = [], symbolSvg = None \<rparr>"

definition workflow_patch :: PatchData where
  "workflow_patch =
     \<lparr> schemaVersion = ''1.0'',
       metadata = mk_metadata ''Complete Test Circuit'' ''2024-01-01T00:00:00.000Z'',
       components =
         [\<lparr> comp_id = ''battery'', comp_name = ''VCC1'', comp_type = ''battery'',
            properties = [(''voltage'', SStr ''5V'')],
            position = \<lparr> pos_x = 0, pos_y = 0 \<rparr> \<rparr>,
          \<lparr> comp_id = ''resistor'', comp_name = ''R1'', comp_type = ''resistor'',
            properties = [(''resistance'', SStr ''220ohm'')],
            position = \<lparr> pos_x = 50, pos_y = 0 \<rparr> \<rparr>,
          \<lparr> comp_id = ''led'', comp_name = ''D1'', comp_type = ''led'',
            properties = [],
            position = \<lparr> pos_x = 100, pos_y = 0 \<rparr> \<rparr>],
       nets =
         [\<lparr> net_id = ''net_vcc'', net_name = Some ''VCC'',
            connections = [\<lparr> componentId = ''battery'', pinName = ''pos'' \<rparr>,
                           \<lparr> componentId = ''resistor'', pinName = ''pin1'' \<rparr>] \<rparr>,
          \<lparr> net_id = ''net_led'', net_name = Some ''LED'',
            connections = [\<lparr> componentId = ''resistor'', pinName = ''pin2'' \<rparr>,
                           \<lparr> componentId = ''led'', pinName = ''anode'' \<rparr>] \<rparr>,
          \<lparr> net_id = ''net_gnd'', net_name = Some ''GND'',
            connections = [\<lparr> componentId = ''led'', pinName = ''cathode'' \<rparr>,
                           \<lparr> componentId = ''battery'', pinName = ''neg'' \<rparr>] \<rparr>],
       interfacePins = [], symbolSvg = None \<rparr>"

definition scenario_patch :: PatchData where
  "scenario_patch =
     \<lparr> schemaVersion = ''1.0'',
       metadata = mk_metadata ''Scenario'' ''2024-01-01T00:00:00.000Z'',
       components =
         [\<lparr> comp_id = ''R1'', comp_name = ''R1'', comp_type = ''resistor'',
            properties = [(''resistance'', SStr ''220ohm'')],
            position = \<lparr> pos_x = 0, pos_y = 0 \<rparr> \<rparr>,
          \<lparr> comp_id = ''D1'', comp_name = ''D1'', comp_type = ''led'',
            properties = [],
            position = \<lparr> pos_x = 50, pos_y = 0 \<rparr> \<rparr>],
       nets =
         [\<lparr> net_id = ''VCC'', net_name = Some ''VCC'',
            connections = [\<lparr> componentId = ''R1'', pinName = ''pin2'' \<rparr>,
                           \<lparr> componentId = ''D1'', pinName = ''anode'' \<rparr>] \<rparr>],
       interfacePins = [], symbolSvg = None \<rparr>"

definition floating_patch :: PatchData where
  "floating_patch =
     \<lparr> schemaVersion = ''1.0'',
       metadata = mk_metadata ''Floating'' ''2024-01-01T00:00:00.000Z'',
       components =
         [\<lparr> comp_id = ''r1'', comp_name = ''R1'', comp_type = ''resistor'',
            properties = [(''resistance'', SStr ''10k'')],
            position = \<lparr> pos_x = 0, pos_y = 0 \<rparr> \<rparr>],
       nets = [\<lparr> net_id = ''net1'', net_name = None,
                 connections = [\<lparr> componentId = ''r1'', pinName = ''pin1'' \<rparr>] \<rparr>],
       interfacePins = [], symbolSvg = None \<rparr>"

text \<open>
  A clock all of whose readings fall into one millisecond, and the empty diagram.
\<close>

definition same_ms_clock :: clk where
  "same_ms_clock =
     \<lparr> clk_fun = (\<lambda>n. (1700000000000, ''2023-11-14T22:13:20.000Z'')), clk_pos = 0 \<rparr>"

definition empty_diagram :: SchematicState where
  "empty_diagram = \<lparr> st_components = [], st_connections = [] \<rparr>"

text \<open>
  A patch with two pin slots that no net connects, a manager over the default
  directories (written as \<open>join\<close> of the runtime returns them, without the leading
  \<open>./\<close>) with an empty index, a world without files, a world holding one patch file
  to import, and a library holding one saved patch.
\<close>

definition open_resistor :: PatchComponent where
  "open_resistor =
     \<lparr> comp_id = ''r1'', comp_name = ''R1'', comp_type = ''resistor'',
       properties = [(''pin_1'', SStr ''a''), (''pin_2'', SStr ''b'')],
       position = \<lparr> pos_x = 0, pos_y = 0 \<rparr> \<rparr>"

definition unconnected_pin_patch :: PatchData where
  "unconnected_pin_patch =
     \<lparr> schemaVersion = ''1.0'',
       metadata = mk_metadata ''Open Pins'' ''2024-01-01T00:00:00.000Z'',
       components = [open_resistor],
       nets = [], interfacePins = [], symbolSvg = None \<rparr>"

definition default_manager :: PatchManager where
  "default_manager =
     \<lparr> config = \<lparr> patchDir = ''patches'', libraryDir = ''patches/library'',
                  backupDir = ''patches/.backup'' \<rparr>,
       libraryIndex = [] \<rparr>"

definition empty_world :: world where
  "empty_world = \<lparr> fs = (\<lambda>p. None), clock = same_ms_clock \<rparr>"





text \<open>
  The diagram of the specification's extraction scenario (components A, B and C, the
  connections A.1 to B.1 and B.2 to C.1), and a diagram in which two connections share
  an identifier.
\<close>

definition mk_component :: "string \<Rightarrow> string \<Rightarrow> SchematicComponent" where
  "mk_component i name =
     \<lparr> sc_id = i, sc_type = ''resistor'', sc_name = name, sc_x = 0, sc_y = 0,
       sc_rotation = None, sc_properties = None, sc_position = None \<rparr>"

definition abc_diagram :: SchematicState where
  "abc_diagram =
     \<lparr> st_components = [mk_component ''a'' ''A'', mk_component ''b'' ''B'', mk_component ''c'' ''C''],
       st_connections =
         [\<lparr> conn_id = ''k1'', conn_net = Some ''N1'', conn_connections = Some [''A.1'', ''B.1''] \<rparr>,
          \<lparr> conn_id = ''k2'', conn_net = Some ''N2'', conn_connections = Some [''B.2'', ''C.1''] \<rparr>] \<rparr>"

definition duplicate_id_diagram :: SchematicState where
  "duplicate_id_diagram =
     \<lparr> st_components = [mk_component ''a'' ''A'', mk_component ''b'' ''B''],
       st_connections =
         [\<lparr> conn_id = ''k1'', conn_net = Some ''N1'', conn_connections = Some [''A.1'', ''B.1''] \<rparr>,
          \<lparr> conn_id = ''k1'', conn_net = Some ''N2'', conn_connections = Some [''A.2'', ''B.2''] \<rparr>] \<rparr>"

section \<open>Properties of validatePatch\<close>

lemma component_pin_errors_iff:
  "e \<in> set (component_pin_errors patch c) \<longleftrightarrow>
     (\<exists>pin v. (pin, v) \<in> set (properties c) \<and>
        startsWith pin ''pin_'' \<and> \<not> pin_isConnected patch c pin \<and>
        e = unconnected_pin_error c pin)"
  by (auto simp: component_pin_errors_def split: if_splits)

lemma floating_net_error_severity: "severity (floating_net_error n) = Warning"
  by (simp add: floating_net_error_def)

lemma unconnected_pin_error_severity: "severity (unconnected_pin_error c pin) = Error"
  by (simp add: unconnected_pin_error_def)

lemma validatePatch_error_iff:
  "e \<in> set (validatePatch patch) \<and> severity e = Error \<longleftrightarrow>
     (\<exists>c pin v. c \<in> set (components patch) \<and> (pin, v) \<in> set (properties c) \<and>
        startsWith pin ''pin_'' \<and> \<not> pin_isConnected patch c pin \<and>
        e = unconnected_pin_error c pin)"
  by (auto simp: validatePatch_def component_pin_errors_iff
                 floating_net_error_severity unconnected_pin_error_severity)

lemma component_pin_errors_no_pin_keys:
  assumes "\<forall>k \<in> fst ` set (properties c). \<not> startsWith k ''pin_''"
  shows "component_pin_errors patch c = []"
  using assms by (auto simp: component_pin_errors_def)

lemma floating_net_error_type: "err_type (floating_net_error n) = FloatingNet"
  by (simp add: floating_net_error_def)

lemma validatePatch_no_pin_keys:
  assumes "\<forall>c \<in> set (components patch). \<forall>k \<in> fst ` set (properties c). \<not> startsWith k ''pin_''"
  shows "(\<forall>c \<in> set (components patch). component_pin_errors patch c = []) \<and>
         (\<forall>e \<in> set (validatePatch patch). severity e = Warning \<and> err_type e = FloatingNet)"
proof -
  have none: "\<forall>c \<in> set (components patch). component_pin_errors patch c = []"
    using assms component_pin_errors_no_pin_keys by blast
  then have "concat (map (component_pin_errors patch) (components patch)) = []"
    by simp
  then have "validatePatch patch =
      map floating_net_error (filter (\<lambda>net. length (connections net) < 2) (nets patch))"
    by (simp add: validatePatch_def)
  then have "\<forall>e \<in> set (validatePatch patch). severity e = Warning \<and> err_type e = FloatingNet"
    by (auto simp: floating_net_error_severity floating_net_error_type)
  with none show ?thesis by blast
qed

text \<open>
  C10. \<open>validatePatch\<close> treats a property key as a pin slot exactly when the key starts
  with \<open>pin_\<close>: its error-severity results are the unconnected-pin errors of the
  \<open>pin_\<close>-prefixed keys that no net endpoint names, and nothing else. A component
  without such a key produces no unconnected-pin error, and a patch in which no
  component has such a key yields only warnings, all of them floating-net warnings.
\<close>

theorem validatePatch_pin_prefix:
  "((e \<in> set (validatePatch patch) \<and> severity e = Error) \<longleftrightarrow>
      (\<exists>c pin v. c \<in> set (components patch) \<and> (pin, v) \<in> set (properties c) \<and>
         startsWith pin ''pin_'' \<and> \<not> pin_isConnected patch c pin \<and>
         e = unconnected_pin_error c pin))
   \<and> ((\<forall>k \<in> fst ` set (properties c0). \<not> startsWith k ''pin_'')
        \<longrightarrow> component_pin_errors patch c0 = [])
   \<and> ((\<forall>c \<in> set (components patch). \<forall>k \<in> fst ` set (properties c). \<not> startsWith k ''pin_'')
        \<longrightarrow> (\<forall>e \<in> set (validatePatch patch). severity e = Warning \<and> err_type e = FloatingNet))"
  using validatePatch_error_iff[of e patch] validatePatch_no_pin_keys[of patch]
        component_pin_errors_no_pin_keys[of c0 patch]
  by blast

theorem validatePatch_pin_prefix_witness:
  "map severity (validatePatch floating_patch) = [Warning] \<and>
   component_pin_errors floating_patch (hd (components floating_patch)) = []"
proof -
  have h: "\<forall>c \<in> set (components floating_patch).
             \<forall>k \<in> fst ` set (properties c). \<not> startsWith k ''pin_''"
    by (simp add: floating_patch_def startsWith_def)
  have h0: "\<forall>k \<in> fst ` set (properties (hd (components floating_patch))). \<not> startsWith k ''pin_''"
    by (simp add: floating_patch_def startsWith_def)
  have len: "length (validatePatch floating_patch) = 1"
    by (simp add: validatePatch_def floating_patch_def component_pin_errors_def startsWith_def)
  from validatePatch_pin_prefix[of _ floating_patch "hd (components floating_patch)"] h h0 len
  show ?thesis
    by (auto simp: length_Suc_conv)
qed

section \<open>Properties of the connectivity engine\<close>

lemma findUnconnectedPins_entry_iff:
  "(\<exists>e \<in> set (findUnconnectedPins patch g). up_componentId e = cid) \<longleftrightarrow>
   (\<exists>c \<in> set (components patch). comp_id c = cid \<and>
      (\<exists>net \<in> set (nets patch). \<forall>conn \<in> set (connections net). componentId conn \<noteq> cid))"
  by (auto simp: findUnconnectedPins_def list_ex_iff Let_def split: if_splits)

text \<open>
  C2. \<open>findUnconnectedPins\<close> is meant to flag the components that no net references.
  On the patch of the complete-workflow test every component is an endpoint of two of
  the three nets, and still each component gets an entry, one for the net that does
  not touch it. On the patch with one resistor and no net the component is referenced
  by no net and gets no entry.
\<close>

theorem findUnconnectedPins_flags_per_net:
  "map up_componentId (unconnectedPins (analyzeConnectivity workflow_patch))
     = [''battery'', ''resistor'', ''led'']
   \<and> unconnectedPins (analyzeConnectivity single_component_patch) = []"
  by (simp add: analyzeConnectivity_def findUnconnectedPins_def workflow_patch_def
        single_component_patch_def Let_def)

text \<open>
  C5, as stated: on the scenario patch the analysis would report two components, one
  net and a nonzero number of unconnected-pin entries. It reports no entry.
\<close>

theorem analyzeConnectivity_scenario_counterexample:
  "\<not> (componentCount (analyzeConnectivity scenario_patch) = 2 \<and>
      netCount (analyzeConnectivity scenario_patch) = 1 \<and>
      length (unconnectedPins (analyzeConnectivity scenario_patch)) \<noteq> 0)"
  by (simp add: analyzeConnectivity_def findUnconnectedPins_def scenario_patch_def Let_def)

text \<open>
  C5, amended. For the patch with the components R1 at (0,0) and D1 at (50,0) and the
  one net VCC with the endpoints (R1, pin2) and (D1, anode), whatever the names, types
  and properties of the two components are, \<open>analyzeConnectivity\<close> reports
  \<open>componentCount = 2\<close>, \<open>netCount = 1\<close>, no unconnected-pin entry (the check is per
  component, and the net references both), no floating net, and \<open>isFullyConnected\<close>.
\<close>

theorem analyzeConnectivity_scenario:
  "(let a = analyzeConnectivity
       \<lparr> schemaVersion = sv, metadata = md,
         components =
           [\<lparr> comp_id = ''R1'', comp_name = n1, comp_type = t1, properties = ps1,
              position = \<lparr> pos_x = 0, pos_y = 0 \<rparr> \<rparr>,
            \<lparr> comp_id = ''D1'', comp_name = n2, comp_type = t2, properties = ps2,
              position = \<lparr> pos_x = 50, pos_y = 0 \<rparr> \<rparr>],
         nets =
           [\<lparr> net_id = nid, net_name = Some ''VCC'',
              connections = [\<lparr> componentId = ''R1'', pinName = ''pin2'' \<rparr>,
                             \<lparr> componentId = ''D1'', pinName = ''anode'' \<rparr>] \<rparr>],
         interfacePins = ips, symbolSvg = svg \<rparr>
    in componentCount a = 2 \<and> netCount a = 1 \<and> unconnectedPins a = [] \<and>
       floatingNets a = [] \<and> isFullyConnected a)"
  by (simp add: analyzeConnectivity_def findUnconnectedPins_def findFloatingNets_def Let_def)

section \<open>Properties of the wire form\<close>

text \<open>
  The object of a typed patch reads back as that patch, and \<open>circuitJsonToPatch\<close>
  returns the object of a patch as it is: the path \<open>savePatch\<close> and \<open>loadPatch\<close> take.
  Through \<open>patchToCircuitJson\<close>, a component whose properties have no key \<open>id\<close>
  comes back without an \<open>id\<close>, so the result is not a \<open>PatchData\<close>.
\<close>

lemma those_map_inverse:
  assumes "\<forall>x \<in> set xs. F x = Some x"
  shows "those (map F xs) = Some xs"
  using assms by (induction xs) auto

lemma as_scalar_json: "as_scalar (scalar_json v) = Some v"
  by (cases v) auto

lemma those_properties_json:
  "those (map ((\<lambda>(k, v). map_option (Pair k) (as_scalar v)) \<circ>
               (\<lambda>(k, v). (k, scalar_json v))) ps) = Some ps"
  by (rule those_map_inverse) (auto simp: as_scalar_json)

lemma as_position_json: "as_position (position_json p) = Some p"
  by (simp add: as_position_def position_json_def obj_of_def req_def)

lemma as_component_json: "as_component (component_json c) = Some c"
  by (simp add: as_component_def component_json_def obj_of_def req_def
        those_properties_json as_position_json)

lemma as_endpoint_json: "as_endpoint (endpoint_json e) = Some e"
  by (simp add: as_endpoint_def endpoint_json_def obj_of_def req_def)

lemma as_net_json: "as_net (net_json n) = Some n"
  by (cases "net_name n")
     (simp_all add: as_net_def net_json_def obj_of_def req_def opt_def
        those_map_inverse as_endpoint_json)

lemma as_side_json: "as_side (side_json s) = Some s"
  by (cases s) (simp_all add: as_side_def)

lemma as_pin_kind_json: "as_pin_kind (pin_kind_json k) = Some k"
  by (cases k) (simp_all add: as_pin_kind_def)

lemma as_pin_json: "as_pin (pin_json p) = Some p"
  by (simp add: as_pin_def pin_json_def obj_of_def req_def as_side_json as_pin_kind_json)

lemma as_metadata_json: "as_metadata (metadata_json m) = Some m"
  by (cases "description m"; cases "author m"; cases "tags m")
     (simp_all add: as_metadata_def metadata_json_def obj_of_def req_def opt_def
        those_map_inverse)

lemma as_PatchData_json: "as_PatchData (patch_json p) = Some p"
  by (cases "symbolSvg p")
     (simp_all add: as_PatchData_def patch_json_def obj_of_def req_def opt_def
        those_map_inverse as_component_json as_net_json as_pin_json as_metadata_json)

lemma truthy_metadata_json: "truthy (metadata_json m)"
  by (simp add: metadata_json_def obj_of_def)

lemma circuitJsonToPatch_patch_json:
  assumes "schemaVersion p \<noteq> []"
  shows "circuitJsonToPatch c (patch_json p) = Inr (patch_json p, c)"
  using assms
  by (cases "symbolSvg p")
     (simp_all add: circuitJsonToPatch_def patch_json_def obj_of_def or_default_def
        truthy_metadata_json)


lemma obj_put_keys: "fst ` set (obj_put kvs k v) = insert k (fst ` set kvs)"
proof (induction kvs)
  case Nil
  then show ?case by simp
next
  case (Cons a kvs)
  obtain k' v' where a: "a = (k', v')" by (cases a)
  show ?case
  proof (cases "k' = k")
    case True
    with a show ?thesis by simp
  next
    case False
    with a Cons show ?thesis by (simp add: insert_commute)
  qed
qed

lemma spread_keys:
  "fst ` set (fold (\<lambda>(k, v) acc. obj_put acc k (scalar_json v)) ps base)
     = fst ` set base \<union> fst ` set ps"
proof (induction ps arbitrary: base)
  case Nil
  then show ?case by simp
next
  case (Cons a ps)
  obtain k v where a: "a = (k, v)" by (cases a)
  show ?case using Cons[of "obj_put base k (scalar_json v)"]
    by (auto simp: a obj_put_keys)
qed

lemma flat_component_no_id:
  assumes "''id'' \<notin> fst ` set (properties c)"
  shows "as_component
           (JObj (fold (\<lambda>(k, v) acc. obj_put acc k (scalar_json v)) (properties c)
                       [(''name'', JStr (comp_name c)), (''type'', JStr (comp_type c))]))
         = None"
proof -
  let ?flat = "fold (\<lambda>(k, v) acc. obj_put acc k (scalar_json v)) (properties c)
                    [(''name'', JStr (comp_name c)), (''type'', JStr (comp_type c))]"
  have "''id'' \<notin> fst ` set ?flat"
    using assms by (simp add: spread_keys)
  then have "map_of ?flat ''id'' = None"
    by (simp add: map_of_eq_None_iff)
  then show ?thesis by (simp add: as_component_def req_def)
qed

lemma roundtrip_not_PatchData:
  assumes "components p = c0 # cs" "''id'' \<notin> fst ` set (properties c0)"
  shows "map_sum id (as_PatchData \<circ> fst) (circuitJsonToPatch c (patchToCircuitJson p)) = Inr None"
proof -
  have "as_component
           (JObj (fold (\<lambda>(k, v) acc. obj_put acc k (scalar_json v)) (properties c0)
                       [(''name'', JStr (comp_name c0)), (''type'', JStr (comp_type c0))]))
         = None"
    using assms(2) by (rule flat_component_no_id)
  then show ?thesis
    using assms(1)
    by (cases "symbolSvg p")
       (simp_all add: circuitJsonToPatch_def patchToCircuitJson_def obj_of_def or_default_def
          truthy_metadata_json as_PatchData_def req_def opt_def as_metadata_json)
qed

lemma single_component_patch_created:
  "single_component_patch =
     (fst (createEmptyPatch
             \<lparr> clk_fun = (\<lambda>n. (1704067200000, ''2024-01-01T00:00:00.000Z'')), clk_pos = 0 \<rparr>
             ''Save Test Patch''))
     \<lparr> components :=
         [\<lparr> comp_id = ''r1'', comp_name = ''R1'', comp_type = ''resistor'',
            properties = [(''resistance'', SStr ''10k'')],
            position = \<lparr> pos_x = 0, pos_y = 0 \<rparr> \<rparr>] \<rparr>"
  by (simp add: single_component_patch_def mk_metadata_def createEmptyPatch_def
        Date_toISOString_def)

text \<open>
  C1. The round trip through the wire form is meant to return an equal patch. On the
  patch that \<open>createEmptyPatch\<close> returns with the one resistor \<open>r1\<close> added,
  \<open>patchToCircuitJson\<close> writes the component as
  the flat object of its name, its type and its properties, and \<open>circuitJsonToPatch\<close>
  hands that object back as the component: it has no \<open>id\<close>, no \<open>properties\<close> and no
  \<open>position\<close>, so the result cannot be read as a \<open>PatchData\<close>, while the object of the
  patch itself can.
\<close>

theorem roundtrip_drops_component_id:
  "map_sum id (\<lambda>(j, c'). (jget j ''components'', as_PatchData j))
     (circuitJsonToPatch c (patchToCircuitJson single_component_patch))
   = Inr (Some (JArr [JObj [(''name'', JStr ''R1''), (''type'', JStr ''resistor''),
                            (''resistance'', JStr ''10k'')]]), None)
   \<and> as_PatchData (patch_json single_component_patch) = Some single_component_patch"
proof (rule conjI)
  show "map_sum id (\<lambda>(j, c'). (jget j ''components'', as_PatchData j))
     (circuitJsonToPatch c (patchToCircuitJson single_component_patch))
   = Inr (Some (JArr [JObj [(''name'', JStr ''R1''), (''type'', JStr ''resistor''),
                            (''resistance'', JStr ''10k'')]]), None)"
    by (simp add: circuitJsonToPatch_def patchToCircuitJson_def single_component_patch_def
          mk_metadata_def obj_of_def metadata_json_def or_default_def as_PatchData_def
          req_def opt_def as_metadata_def as_component_def Let_def)
  show "as_PatchData (patch_json single_component_patch) = Some single_component_patch"
    by (simp add: patch_json_def single_component_patch_def mk_metadata_def obj_of_def
          metadata_json_def as_PatchData_def component_json_def position_json_def
          req_def opt_def as_metadata_def as_component_def as_position_def Let_def)
qed

section \<open>Properties of the insertion\<close>

text \<open>
  An added component is named by the identifier of the patch component, a dash and the
  decimal clock reading. Two such names are equal only if the identifiers and the
  readings are: when all readings of the clock are pairwise different, the components
  added by two successive insertions have pairwise different identifiers.
\<close>

lemma digit_char_mem: "d < 10 \<Longrightarrow> digit_char d \<in> set ''0123456789''"
  unfolding digit_char_def by (rule nth_mem) simp

lemma digit_char_inj: "a < 10 \<Longrightarrow> b < 10 \<Longrightarrow> digit_char a = digit_char b \<Longrightarrow> a = b"
proof -
  assume a: "a < 10" and b: "b < 10" and e: "digit_char a = digit_char b"
  have d: "distinct ''0123456789''" by simp
  have "a < length ''0123456789''" "b < length ''0123456789''" using a b by simp_all
  with d e show "a = b" unfolding digit_char_def by (simp only: nth_eq_iff_index_eq)
qed

lemma dec_not_Nil: "dec n \<noteq> []"
  by (subst dec.simps) simp

lemma dec_digits: "set (dec n) \<subseteq> set ''0123456789''"
proof (induction n rule: dec.induct)
  case (1 n)
  show ?case
  proof (cases "n < 10")
    case True
    then have "dec n = [digit_char n]" by (subst dec.simps) simp
    with digit_char_mem[OF True] show ?thesis by simp
  next
    case False
    then have e: "dec n = dec (n div 10) @ [digit_char (n mod 10)]" by (subst dec.simps) simp
    have "digit_char (n mod 10) \<in> set ''0123456789''" by (rule digit_char_mem) simp
    with 1[OF False] e show ?thesis by simp
  qed
qed

lemma dec_no_dash: "CHR ''-'' \<notin> set (dec n)"
  using dec_digits[of n] by auto

lemma dec_inj: "dec n = dec m \<Longrightarrow> n = m"
proof (induction n arbitrary: m rule: dec.induct)
  case (1 n)
  show ?case
  proof (cases "n < 10")
    case n: True
    then have dn: "dec n = [digit_char n]" by (subst dec.simps) simp
    show ?thesis
    proof (cases "m < 10")
      case True
      then have "dec m = [digit_char m]" by (subst dec.simps) simp
      with dn "1.prems" have "digit_char n = digit_char m" by simp
      with n True show ?thesis by (rule digit_char_inj)
    next
      case False
      then have "dec m = dec (m div 10) @ [digit_char (m mod 10)]" by (subst dec.simps) simp
      with dn "1.prems" dec_not_Nil[of "m div 10"] show ?thesis by simp
    qed
  next
    case n: False
    then have dn: "dec n = dec (n div 10) @ [digit_char (n mod 10)]" by (subst dec.simps) simp
    show ?thesis
    proof (cases "m < 10")
      case True
      then have "dec m = [digit_char m]" by (subst dec.simps) simp
      with dn "1.prems" dec_not_Nil[of "n div 10"] show ?thesis by simp
    next
      case False
      then have "dec m = dec (m div 10) @ [digit_char (m mod 10)]" by (subst dec.simps) simp
      with dn "1.prems" have q: "dec (n div 10) = dec (m div 10)"
        and r: "digit_char (n mod 10) = digit_char (m mod 10)" by simp_all
      from "1.IH"[OF n q] have "n div 10 = m div 10" .
      moreover from r have "n mod 10 = m mod 10" by (intro digit_char_inj) simp_all
      ultimately show ?thesis by (metis div_mult_mod_eq)
    qed
  qed
qed

lemma split_at_first:
  assumes "x \<notin> set xs" "x \<notin> set xs'" "xs @ x # ys = xs' @ x # ys'"
  shows "xs = xs' \<and> ys = ys'"
proof -
  have a: "takeWhile (\<lambda>y. y \<noteq> x) (xs @ x # ys) = xs"
    using assms(1) by (induction xs) auto
  have b: "takeWhile (\<lambda>y. y \<noteq> x) (xs' @ x # ys') = xs'"
    using assms(2) by (induction xs') auto
  from a b assms(3) have "xs = xs'" by simp
  with assms(3) show ?thesis by simp
qed

lemma stamped_id_eq:
  assumes "a @ ''-'' @ dec t1 = b @ ''-'' @ dec t2"
  shows "a = b \<and> t1 = t2"
proof -
  have e: "rev (dec t1) @ CHR ''-'' # rev a = rev (dec t2) @ CHR ''-'' # rev b"
    using arg_cong[OF assms, of rev] by simp
  have "CHR ''-'' \<notin> set (rev (dec t1))" "CHR ''-'' \<notin> set (rev (dec t2))"
    using dec_no_dash by simp_all
  from split_at_first[OF this e] have "dec t1 = dec t2" "a = b" by simp_all
  then show ?thesis using dec_inj by auto
qed

lemma insert_components_clock:
  "snd (insert_components c comps) = c\<lparr> clk_pos := clk_pos c + length comps \<rparr>"
proof (induction comps arbitrary: c)
  case Nil
  then show ?case by simp
next
  case (Cons cmpt comps)
  let ?c1 = "c\<lparr> clk_pos := Suc (clk_pos c) \<rparr>"
  have "snd (insert_components c (cmpt # comps)) = snd (insert_components ?c1 comps)"
    by (simp add: Let_def Date_now_def split: prod.splits)
  also have "\<dots> = ?c1\<lparr> clk_pos := clk_pos ?c1 + length comps \<rparr>" by (rule Cons.IH)
  finally show ?case by simp
qed

lemma insert_connections_clock:
  "snd (insert_connections c new ns) = c\<lparr> clk_pos := clk_pos c + length ns \<rparr>"
proof (induction ns arbitrary: c)
  case Nil
  then show ?case by simp
next
  case (Cons n ns)
  let ?c1 = "c\<lparr> clk_pos := Suc (clk_pos c) \<rparr>"
  have "snd (insert_connections c new (n # ns)) = snd (insert_connections ?c1 new ns)"
    by (simp add: Let_def Date_now_def split: prod.splits)
  also have "\<dots> = ?c1\<lparr> clk_pos := clk_pos ?c1 + length ns \<rparr>" by (rule Cons.IH)
  finally show ?case by simp
qed

lemma insert_components_ids:
  assumes "x \<in> set (map sc_id (fst (insert_components c comps)))"
  shows "\<exists>a j. clk_pos c \<le> j \<and> j < clk_pos c + length comps
           \<and> x = a @ ''-'' @ dec (fst (clk_fun c j))"
  using assms
proof (induction comps arbitrary: c)
  case Nil
  then show ?case by simp
next
  case (Cons cmpt comps)
  let ?c1 = "c\<lparr> clk_pos := Suc (clk_pos c) \<rparr>"
  from Cons.prems have
    "x = comp_id cmpt @ ''-'' @ dec (fst (clk_fun c (clk_pos c)))
     \<or> x \<in> set (map sc_id (fst (insert_components ?c1 comps)))"
    by (auto simp: Let_def Date_now_def split: prod.splits)
  then show ?case
  proof
    assume "x = comp_id cmpt @ ''-'' @ dec (fst (clk_fun c (clk_pos c)))"
    then show ?thesis by (intro exI[of _ "comp_id cmpt"] exI[of _ "clk_pos c"]) simp
  next
    assume "x \<in> set (map sc_id (fst (insert_components ?c1 comps)))"
    from Cons.IH[OF this] obtain a j where
      "clk_pos ?c1 \<le> j" "j < clk_pos ?c1 + length comps"
      "x = a @ ''-'' @ dec (fst (clk_fun ?c1 j))" by blast
    then show ?thesis by (intro exI[of _ a] exI[of _ j]) simp
  qed
qed

lemma insert_components_distinct:
  assumes "inj (\<lambda>n. fst (clk_fun c n))"
  shows "distinct (map sc_id (fst (insert_components c comps)))"
  using assms
proof (induction comps arbitrary: c)
  case Nil
  then show ?case by simp
next
  case (Cons cmpt comps)
  let ?c1 = "c\<lparr> clk_pos := Suc (clk_pos c) \<rparr>"
  let ?x = "comp_id cmpt @ ''-'' @ dec (fst (clk_fun c (clk_pos c)))"
  have inj1: "inj (\<lambda>n. fst (clk_fun ?c1 n))" using Cons.prems by simp
  have rest: "distinct (map sc_id (fst (insert_components ?c1 comps)))"
    using Cons.IH[OF inj1] .
  have "?x \<notin> set (map sc_id (fst (insert_components ?c1 comps)))"
  proof
    assume "?x \<in> set (map sc_id (fst (insert_components ?c1 comps)))"
    from insert_components_ids[OF this] obtain a j where
      j: "Suc (clk_pos c) \<le> j" and e: "?x = a @ ''-'' @ dec (fst (clk_fun c j))"
      by auto
    from stamped_id_eq[OF e] have "fst (clk_fun c (clk_pos c)) = fst (clk_fun c j)" by simp
    with Cons.prems have "clk_pos c = j" by (auto dest: injD)
    with j show False by simp
  qed
  with rest show ?case
    by (auto simp: Let_def Date_now_def split: prod.splits)
qed

lemma onInsertPatch_components:
  "st_components (fst (onInsertPatch c prev patch))
     = st_components prev @ fst (insert_components c (components patch))"
  by (simp add: onInsertPatch_def Let_def split: prod.splits)

lemma onInsertPatch_clock:
  "snd (onInsertPatch c prev patch)
     = c\<lparr> clk_pos := clk_pos c + length (components patch) + length (nets patch) \<rparr>"
proof -
  obtain new c1 where a: "insert_components c (components patch) = (new, c1)" by fastforce
  obtain conns c2 where b: "insert_connections c1 new (nets patch) = (conns, c2)" by fastforce
  from a insert_components_clock[of c "components patch"]
  have c1: "c1 = c\<lparr> clk_pos := clk_pos c + length (components patch) \<rparr>" by simp
  from b insert_connections_clock[of c1 new "nets patch"]
  have "c2 = c1\<lparr> clk_pos := clk_pos c1 + length (nets patch) \<rparr>" by simp
  with a b c1 show ?thesis by (simp add: onInsertPatch_def)
qed

lemma onInsertPatch_twice_distinct:
  assumes "inj (\<lambda>n. fst (clk_fun c n))"
  shows "distinct (map sc_id (drop (length (st_components s0))
           (st_components (fst (onInsertPatch (snd (onInsertPatch c s0 patch))
                                              (fst (onInsertPatch c s0 patch)) patch)))))"
proof -
  let ?n = "length (components patch)"
  let ?c1 = "c\<lparr> clk_pos := clk_pos c + ?n + length (nets patch) \<rparr>"
  let ?new1 = "fst (insert_components c (components patch))"
  let ?new2 = "fst (insert_components ?c1 (components patch))"
  have comps: "st_components (fst (onInsertPatch (snd (onInsertPatch c s0 patch))
                                              (fst (onInsertPatch c s0 patch)) patch))
                 = st_components s0 @ ?new1 @ ?new2"
    by (simp add: onInsertPatch_components onInsertPatch_clock)
  have inj1: "inj (\<lambda>n. fst (clk_fun ?c1 n))" using assms by simp
  have d1: "distinct (map sc_id ?new1)" using assms by (rule insert_components_distinct)
  have d2: "distinct (map sc_id ?new2)" using inj1 by (rule insert_components_distinct)
  have disj: "set (map sc_id ?new1) \<inter> set (map sc_id ?new2) = {}"
  proof (rule ccontr)
    assume "set (map sc_id ?new1) \<inter> set (map sc_id ?new2) \<noteq> {}"
    then obtain x where x1: "x \<in> set (map sc_id ?new1)" and x2: "x \<in> set (map sc_id ?new2)"
      by blast
    from insert_components_ids[OF x1] obtain a i where
      i: "i < clk_pos c + ?n" and xi: "x = a @ ''-'' @ dec (fst (clk_fun c i))" by blast
    from insert_components_ids[OF x2] obtain b j where
      j: "clk_pos c + ?n + length (nets patch) \<le> j"
      and xj: "x = b @ ''-'' @ dec (fst (clk_fun c j))" by auto
    from xi xj stamped_id_eq[of a "fst (clk_fun c i)" b "fst (clk_fun c j)"]
    have "fst (clk_fun c i) = fst (clk_fun c j)" by simp
    with assms have "i = j" by (auto dest: injD)
    with i j show False by simp
  qed
  from d1 d2 disj show ?thesis by (simp add: comps)
qed

lemma dec_ms: "dec 1700000000000 = ''1700000000000''"
  by (simp add: dec.simps digit_char_def)

text \<open>
  C3. Two successive insertions of one patch are meant to give all added components
  different identifiers. The identifiers differ only as far as the clock readings do:
  when both calls read the same millisecond, the component \<open>r1\<close> is added twice
  under the same identifier.
\<close>

theorem onInsertPatch_same_millisecond:
  "(let (s1, c1) = onInsertPatch same_ms_clock empty_diagram single_component_patch;
        (s2, c2) = onInsertPatch c1 s1 single_component_patch
    in map sc_id (st_components s2)) = [''r1-1700000000000'', ''r1-1700000000000'']"
  by (simp add: onInsertPatch_def same_ms_clock_def empty_diagram_def
        single_component_patch_def Date_now_def dec_ms Let_def)

section \<open>Properties of the library store\<close>




lemma Map_get_Map_delete:
  "Map_get (Map_delete m k) k' = (if k' = k then None else Map_get m k')"
  by (induction m) (auto simp: Map_get_def Map_delete_def)

lemma Map_delete_absent: "Map_get m k = None \<Longrightarrow> Map_delete m k = m"
  by (induction m) (auto simp: Map_get_def Map_delete_def split: if_splits)

lemma Map_delete_distinct: "distinct (map fst m) \<Longrightarrow> distinct (map fst (Map_delete m k))"
  by (simp add: Map_delete_def distinct_map_filter)


lemma list_ex_severity: "list_ex (\<lambda>e. severity e = Error) xs \<longleftrightarrow> (\<exists>v \<in> set xs. severity v = Error)"
  by (simp add: list_ex_iff)

lemma savePatch_fails:
  assumes "list_ex (\<lambda>e. severity e = Error) (validatePatch patch)"
  shows "savePatch w m patch filename =
     (Inl (ThrownError (''Cannot save patch with errors: '' @
        join_with '', '' (map message (filter (\<lambda>e. severity e = Error) (validatePatch patch))))),
      w, m, patch)"
  using assms by (simp add: savePatch_def Let_def)

lemma save_name_refreshed [simp]: "save_name (refreshed w patch) filename = save_name patch filename"
  by (simp add: save_name_def default_filename_def refreshed_def split: option.splits)

lemma indexPath_libraryIndex_update [simp]: "indexPath (m\<lparr> libraryIndex := x \<rparr>) = indexPath m"
  by (simp add: indexPath_def)



lemma validate_unconnected_pin_patch:
  "validatePatch unconnected_pin_patch =
     [unconnected_pin_error open_resistor ''pin_1'',
      unconnected_pin_error open_resistor ''pin_2'']"
  by (simp add: validatePatch_def unconnected_pin_patch_def component_pin_errors_def
        startsWith_def pin_isConnected_def open_resistor_def)



lemma replace_ws_Save_Test_Patch: "replace_ws ''_'' ''Save Test Patch'' = ''Save_Test_Patch''"
  by (simp add: is_space_def)



text \<open>
  C9. When \<open>validatePatch\<close> reports a result of severity error, \<open>savePatch\<close> throws and
  nothing has changed: the files and the clock, the manager with its index, and the
  patch of the caller with its metadata are what they were before the call.
\<close>

theorem savePatch_atomic_on_validation_failure:
  assumes "\<exists>v \<in> set (validatePatch patch). severity v = Error"
  shows "\<exists>e. savePatch w m patch filename = (Inl e, w, m, patch)"
  using assms savePatch_fails[of patch w m filename] by (simp add: list_ex_severity)

theorem savePatch_atomic_on_validation_failure_witness:
  "snd (savePatch empty_world default_manager unconnected_pin_patch None)
     = (empty_world, default_manager, unconnected_pin_patch)"
proof -
  have "\<exists>v \<in> set (validatePatch unconnected_pin_patch). severity v = Error"
    by (simp add: validate_unconnected_pin_patch unconnected_pin_error_severity)
  from savePatch_atomic_on_validation_failure[OF this, of empty_world default_manager None]
  obtain e where "savePatch empty_world default_manager unconnected_pin_patch None
                    = (Inl e, empty_world, default_manager, unconnected_pin_patch)"
    by blast
  then show ?thesis by simp
qed


















section \<open>Properties of the extraction\<close>

lemma extract_step_fresh:
  assumes "conn_id conn \<notin> processedNets st"
  shows "extract_step names conn st =
     \<lparr> internalNets = internalNets st @
          (if is_internal names conn then [internal_net_of names conn] else []),
       ex_interfacePins = ex_interfacePins st @
          (if is_boundary names conn then interface_pins_of names conn else []),
       processedNets = insert (conn_id conn) (processedNets st) \<rparr>"
  using assms
  by (simp add: extract_step_def Let_def is_internal_def is_boundary_def
        internal_net_of_def interface_pins_of_def)

lemma extract_step_processed:
  "conn_id conn \<in> processedNets st \<Longrightarrow> extract_step names conn st = st"
  by (simp add: extract_step_def)

lemma extract_step_one_category:
  "internalNets (extract_step names conn st) = internalNets st
   \<or> ex_interfacePins (extract_step names conn st) = ex_interfacePins st"
  by (simp add: extract_step_def Let_def)

lemma extract_fold:
  assumes "distinct (map conn_id conns)" "set (map conn_id conns) \<inter> processedNets st = {}"
  shows "fold (extract_step names) conns st =
     \<lparr> internalNets = internalNets st @
          map (internal_net_of names) (filter (is_internal names) conns),
       ex_interfacePins = ex_interfacePins st @
          concat (map (interface_pins_of names) (filter (is_boundary names) conns)),
       processedNets = processedNets st \<union> set (map conn_id conns) \<rparr>"
  using assms
proof (induction conns arbitrary: st)
  case Nil
  then show ?case by simp
next
  case (Cons conn conns)
  from Cons.prems have fresh: "conn_id conn \<notin> processedNets st" by auto
  let ?st1 = "extract_step names conn st"
  have st1: "?st1 =
     \<lparr> internalNets = internalNets st @
          (if is_internal names conn then [internal_net_of names conn] else []),
       ex_interfacePins = ex_interfacePins st @
          (if is_boundary names conn then interface_pins_of names conn else []),
       processedNets = insert (conn_id conn) (processedNets st) \<rparr>"
    using fresh by (rule extract_step_fresh)
  have d: "distinct (map conn_id conns)" using Cons.prems by simp
  have disj: "set (map conn_id conns) \<inter> processedNets ?st1 = {}"
    using Cons.prems by (auto simp: st1)
  have "fold (extract_step names) (conn # conns) st = fold (extract_step names) conns ?st1"
    by simp
  also have "\<dots> =
     \<lparr> internalNets = internalNets ?st1 @
          map (internal_net_of names) (filter (is_internal names) conns),
       ex_interfacePins = ex_interfacePins ?st1 @
          concat (map (interface_pins_of names) (filter (is_boundary names) conns)),
       processedNets = processedNets ?st1 \<union> set (map conn_id conns) \<rparr>"
    using Cons.IH[OF d disj] .
  also have "\<dots> =
     \<lparr> internalNets = internalNets st @
          map (internal_net_of names) (filter (is_internal names) (conn # conns)),
       ex_interfacePins = ex_interfacePins st @
          concat (map (interface_pins_of names) (filter (is_boundary names) (conn # conns))),
       processedNets = processedNets st \<union> set (map conn_id (conn # conns)) \<rparr>"
    by (simp add: st1)
  finally show ?case .
qed

lemma selected_partition:
  "set (concat (map xn_connections (map (internal_net_of names) (filter (is_internal names) conns))))
   \<union> set (map xp_name (concat (map (interface_pins_of names) (filter (is_boundary names) conns))))
   = set (concat (map (selectedEndpoints names) conns))"
proof (induction conns)
  case Nil
  then show ?case by simp
next
  case (Cons conn conns)
  have sel: "\<not> is_internal names conn \<Longrightarrow> \<not> is_boundary names conn
               \<Longrightarrow> selectedEndpoints names conn = []"
    by (auto simp: is_internal_def is_boundary_def)
  have pins: "set (map xp_name (interface_pins_of names conn)) = set (selectedEndpoints names conn)"
    by (simp add: interface_pins_of_def comp_def)
  have excl: "\<not> (is_internal names conn \<and> is_boundary names conn)"
    by (auto simp: is_internal_def is_boundary_def)
  show ?case
  proof (cases "is_internal names conn")
    case True
    with excl have "\<not> is_boundary names conn" by simp
    with True Cons.IH show ?thesis
      by (auto simp: internal_net_of_def)
  next
    case False
    show ?thesis
    proof (cases "is_boundary names conn")
      case True
      with False Cons.IH pins show ?thesis by auto
    next
      case nb: False
      with False sel have "selectedEndpoints names conn = []" by simp
      with False nb Cons.IH show ?thesis by simp
    qed
  qed
qed

lemma extractPatch_result:
  assumes "extractPatchFromSchematic c D ids name = Inr (p, c')"
  shows "xpatch_nets p = internalNets (fold (extract_step (selectedComponentNames D ids))
            (st_connections D) \<lparr> internalNets = [], ex_interfacePins = [], processedNets = {} \<rparr>)
       \<and> xpatch_interfacePins p = ex_interfacePins (fold (extract_step (selectedComponentNames D ids))
            (st_connections D) \<lparr> internalNets = [], ex_interfacePins = [], processedNets = {} \<rparr>)"
  using assms
  by (auto simp: extractPatchFromSchematic_def Let_def selectedComponentNames_def
           split: if_splits prod.splits)

text \<open>
  C4, amended. When the extraction returns a patch (at least one component of the
  diagram is selected) and the identifiers of the connections of the diagram are
  pairwise distinct, every connection falls into exactly one class: one iteration of
  the loop never adds both an internal net and interface pins, the internal nets of
  the patch are those of the connections with selected endpoints only, the interface
  pins are the selected endpoints of the connections with endpoints on both sides, and
  every other connection is ignored. The endpoints of the internal nets together with
  the endpoints named by the interface pins are exactly the endpoints of the
  connections of the diagram whose owning component name is selected.
\<close>

theorem extraction_boundary_law:
  assumes "extractPatchFromSchematic c D ids name = Inr (p, c')"
    and "distinct (map conn_id (st_connections D))"
  shows "(\<forall>conn st. internalNets (extract_step (selectedComponentNames D ids) conn st) = internalNets st
             \<or> ex_interfacePins (extract_step (selectedComponentNames D ids) conn st) = ex_interfacePins st)
       \<and> xpatch_nets p = map (internal_net_of (selectedComponentNames D ids))
                            (filter (is_internal (selectedComponentNames D ids)) (st_connections D))
       \<and> xpatch_interfacePins p = concat (map (interface_pins_of (selectedComponentNames D ids))
                            (filter (is_boundary (selectedComponentNames D ids)) (st_connections D)))
       \<and> (\<forall>conn. \<not> (is_internal (selectedComponentNames D ids) conn
                     \<and> is_boundary (selectedComponentNames D ids) conn))
       \<and> patch_endpoints p = diagram_selected_endpoints D ids"
proof -
  let ?names = "selectedComponentNames D ids"
  let ?st0 = "\<lparr> internalNets = [], ex_interfacePins = [], processedNets = {} \<rparr>"
  have f: "fold (extract_step ?names) (st_connections D) ?st0 =
     \<lparr> internalNets = map (internal_net_of ?names) (filter (is_internal ?names) (st_connections D)),
       ex_interfacePins =
          concat (map (interface_pins_of ?names) (filter (is_boundary ?names) (st_connections D))),
       processedNets = set (map conn_id (st_connections D)) \<rparr>"
    using extract_fold[OF assms(2), of ?st0 ?names] by simp
  from extractPatch_result[OF assms(1)] f
  have n: "xpatch_nets p = map (internal_net_of ?names) (filter (is_internal ?names) (st_connections D))"
    and i: "xpatch_interfacePins p =
          concat (map (interface_pins_of ?names) (filter (is_boundary ?names) (st_connections D)))"
    by simp_all
  have u: "patch_endpoints p = diagram_selected_endpoints D ids"
    unfolding patch_endpoints_def diagram_selected_endpoints_def n i
    by (rule selected_partition)
  have x: "\<forall>conn. \<not> (is_internal ?names conn \<and> is_boundary ?names conn)"
    by (auto simp: is_internal_def is_boundary_def)
  from n i u x extract_step_one_category show ?thesis by blast
qed

lemma names_duplicate_id_diagram:
  "selectedComponentNames duplicate_id_diagram {''a'', ''b''} = {''A'', ''B''}"
  by (auto simp: selectedComponentNames_def duplicate_id_diagram_def mk_component_def)

lemma names_abc_diagram:
  "selectedComponentNames abc_diagram {''a'', ''b''} = {''A'', ''B''}"
  by (auto simp: selectedComponentNames_def abc_diagram_def mk_component_def)

text \<open>
  C4, as stated: for every diagram the endpoints of the patch would be all selected
  endpoints of the diagram. The loop skips a connection whose identifier it has
  already processed: with two connections under the identifier \<open>k1\<close> the endpoints
  \<open>A.2\<close> and \<open>B.2\<close> of the second are selected endpoints of the diagram but appear
  neither in a net nor as a pin of the patch.
\<close>

theorem extraction_duplicate_id_counterexample:
  "map_sum id (patch_endpoints \<circ> fst)
     (extractPatchFromSchematic same_ms_clock duplicate_id_diagram {''a'', ''b''} ''Pair'')
     = Inr {''A.1'', ''B.1''}
   \<and> diagram_selected_endpoints duplicate_id_diagram {''a'', ''b''}
     = {''A.1'', ''B.1'', ''A.2'', ''B.2''}
   \<and> ''A.2'' \<notin> {''A.1'', ''B.1''}"
proof (intro conjI)
  show "map_sum id (patch_endpoints \<circ> fst)
     (extractPatchFromSchematic same_ms_clock duplicate_id_diagram {''a'', ''b''} ''Pair'')
     = Inr {''A.1'', ''B.1''}"
    by (simp add: extractPatchFromSchematic_def duplicate_id_diagram_def mk_component_def
          Let_def extract_step_def selectedEndpoints_def externalEndpoints_def
          connectedEndpoints_def split_dot_first_def Date_toISOString_def patch_endpoints_def
          split: prod.splits)
  show "diagram_selected_endpoints duplicate_id_diagram {''a'', ''b''}
     = {''A.1'', ''B.1'', ''A.2'', ''B.2''}"
    unfolding diagram_selected_endpoints_def names_duplicate_id_diagram
    by (auto simp: duplicate_id_diagram_def selectedEndpoints_def connectedEndpoints_def
          split_dot_first_def)
  show "''A.2'' \<notin> {''A.1'', ''B.1''}" by simp
qed

theorem extraction_boundary_law_witness:
  "map_sum id ((\<lambda>p. (map xn_connections (xpatch_nets p), map xp_name (xpatch_interfacePins p),
                      patch_endpoints p)) \<circ> fst)
     (extractPatchFromSchematic same_ms_clock abc_diagram {''a'', ''b''} ''Pair'')
     = Inr ([[''A.1'', ''B.1'']], [''B.2''], {''A.1'', ''B.1'', ''B.2''})"
proof -
  have "\<exists>p c'. extractPatchFromSchematic same_ms_clock abc_diagram {''a'', ''b''} ''Pair'' = Inr (p, c')"
    by (simp add: extractPatchFromSchematic_def abc_diagram_def mk_component_def Let_def
          split: prod.splits)
  then obtain p c' where
    ok: "extractPatchFromSchematic same_ms_clock abc_diagram {''a'', ''b''} ''Pair'' = Inr (p, c')"
    by blast
  have d: "distinct (map conn_id (st_connections abc_diagram))"
    by (simp add: abc_diagram_def)
  note T = extraction_boundary_law[OF ok d, unfolded names_abc_diagram]
  have i: "filter (is_internal {''A'', ''B''}) (st_connections abc_diagram)
             = [\<lparr> conn_id = ''k1'', conn_net = Some ''N1'', conn_connections = Some [''A.1'', ''B.1''] \<rparr>]"
    by (simp add: abc_diagram_def is_internal_def selectedEndpoints_def externalEndpoints_def
          connectedEndpoints_def split_dot_first_def)
  have b: "filter (is_boundary {''A'', ''B''}) (st_connections abc_diagram)
             = [\<lparr> conn_id = ''k2'', conn_net = Some ''N2'', conn_connections = Some [''B.2'', ''C.1''] \<rparr>]"
    by (simp add: abc_diagram_def is_boundary_def selectedEndpoints_def externalEndpoints_def
          connectedEndpoints_def split_dot_first_def)
  from T have n: "map xn_connections (xpatch_nets p) = [[''A.1'', ''B.1'']]"
    by (simp add: i internal_net_of_def selectedEndpoints_def connectedEndpoints_def
          split_dot_first_def)
  from T have pn: "map xp_name (xpatch_interfacePins p) = [''B.2'']"
    by (simp add: b interface_pins_of_def selectedEndpoints_def connectedEndpoints_def
          split_dot_first_def)
  have e: "patch_endpoints p = {''A.1'', ''B.1'', ''B.2''}"
    using n pn by (auto simp: patch_endpoints_def)
  from ok n pn e show ?thesis by simp
qed

end
